theory Spec2Isabelle
  imports Main "HOL-Library.Sublist"
begin

section \<open>Text\<close>

text \<open>
  A Python \<open>str\<close> is a sequence of Unicode code points; it is modelled as a list of
  natural numbers, so that the non-ASCII characters of \<open>chat.py\<close> (the arrow U+27A4,
  the box line U+2500, the ellipsis U+2026) are single elements, as in Python.
  \<open>lit\<close> embeds an ASCII literal.
\<close>

type_synonym pystr = "nat list"

definition lit :: "string \<Rightarrow> pystr" where
  "lit s = map of_char s"

text \<open>\<open>str.isspace\<close> on one code point: the Unicode whitespace characters.\<close>

definition py_isspace :: "nat \<Rightarrow> bool" where
  "py_isspace c \<longleftrightarrow>
     (9 \<le> c \<and> c \<le> 13) \<or> (28 \<le> c \<and> c \<le> 32) \<or> c = 133 \<or> c = 160 \<or> c = 5760 \<or>
     (8192 \<le> c \<and> c \<le> 8202) \<or> c = 8232 \<or> c = 8233 \<or> c = 8239 \<or> c = 8287 \<or> c = 12288"

text \<open>\<open>str.strip()\<close>: leading and trailing whitespace removed.\<close>

definition strip :: "pystr \<Rightarrow> pystr" where
  "strip s = rev (dropWhile py_isspace (rev (dropWhile py_isspace s)))"




section \<open>Exceptions\<close>

text \<open>
  What the code inside \<open>call_chat\<close> raises (import errors, the client's configuration,
  network and API errors, \<open>IndexError\<close>) are instances of Python's \<open>Exception\<close>, the class
  named by the handler; one is represented by the text \<open>str(err)\<close>.
\<close>

datatype exn = Exception (message: pystr)

section \<open>The ANSI lexer\<close>


text \<open>
  Subscription \<open>xs[i]\<close> of a Python list: an index from \<open>-len(xs)\<close> to \<open>-1\<close> is
  taken from the end, and one outside \<open>-len(xs) .. len(xs) - 1\<close> raises \<open>IndexError\<close>.
\<close>

definition py_index :: "'a list \<Rightarrow> int \<Rightarrow> exn + 'a" where
  "py_index xs i =
     (if 0 \<le> i \<and> i < int (length xs) then Inr (xs ! nat i)
      else if - int (length xs) \<le> i \<and> i < 0 then Inr (xs ! nat (int (length xs) + i))
      else Inl (Exception (lit ''list index out of range'')))"



section \<open>Program state\<close>

text \<open>An entry of \<open>chatContent\<close>: the dict with keys role, content and promptID.\<close>

record chat_message =
  role :: pystr
  content :: pystr
  promptID :: int

datatype widget = OutputArea | InputArea

text \<open>
  Where a piece of code runs: on the event loop (the coroutine \<open>handle_send\<close>) or in the
  default executor's worker thread (the function given to \<open>run_in_executor\<close>).
\<close>

datatype exec_context = EventLoop | Worker

text \<open>The mutations and calls of the program, recorded in the order they happen.\<close>

datatype event =
    SetInputText pystr
  | InsertText pystr
  | CursorDown nat
  | Invalidate
  | SetStatus pystr
  | AppendChat chat_message
  | CreateCompletion pystr "chat_message list"
  | FocusWidget widget

text \<open>
  The module's globals. \<open>'b\<close> is prompt_toolkit's \<open>Buffer\<close> of the output area, whose
  operations are parameters (record \<open>toolkit\<close> below). \<open>input_area\<close> and \<open>status\<close> hold
  the text of the widgets; \<open>focus\<close> is the focused widget of the layout; \<open>running_on\<close>
  and \<open>trace\<close> record which context is executing and what has been done so far.
\<close>

record 'b app =
  chatContent :: "chat_message list"
  output_area :: 'b
  input_area :: pystr
  status :: pystr
  focus :: widget
  running_on :: exec_context
  trace :: "(exec_context \<times> event) list"

definition emit :: "event \<Rightarrow> 'b app \<Rightarrow> 'b app" where
  "emit ev s = s\<lparr>trace := trace s @ [(running_on s, ev)]\<rparr>"

text \<open>
  The libraries the program calls: \<open>Buffer.insert_text\<close> and \<open>Buffer.cursor_down\<close> of
  prompt_toolkit, and rich's \<open>Console(width=w).print(Markdown(text, code_theme=t))\<close>
  written to a string, for a \<open>str\<close>. Given \<open>None\<close> instead of a \<open>str\<close>, \<open>Markdown\<close>
  raises (its parser rejects what is not a string with a \<open>TypeError\<close>); the exception
  is \<open>markdown_none\<close>.
\<close>

record 'b toolkit =
  insert_text :: "'b \<Rightarrow> pystr \<Rightarrow> 'b"
  cursor_down :: "'b \<Rightarrow> nat \<Rightarrow> 'b"
  console_print_markdown :: "nat \<Rightarrow> pystr \<Rightarrow> pystr \<Rightarrow> pystr"
  markdown_none :: exn

text \<open>
  The outside world of \<open>call_chat\<close>: the process environment, whether importing
  \<open>openai\<close> raises, whether constructing the client with the given key raises, and what
  \<open>client.chat.completions.create\<close> does with a model and the messages: it raises, or it
  returns a response, of which the program reads the message contents of the choices.
  The content of a message is a \<open>str\<close> or \<open>None\<close> (the library types it
  \<open>Optional[str]\<close>).
\<close>

record world =
  environ :: "pystr \<Rightarrow> pystr option"
  import_openai :: "exn option"
  OpenAI :: "pystr option \<Rightarrow> exn option"
  completions_create :: "pystr \<Rightarrow> chat_message list \<Rightarrow> exn + pystr option list"

section \<open>The completion client\<close>

text \<open>
  The body of the \<open>try\<close> block of \<open>call_chat\<close>; \<open>Inl\<close> is a raised exception, and the
  value returned is the content of the first choice as it is, a \<open>str\<close> or \<open>None\<close>.
\<close>

definition call_chat_try ::
  "world \<Rightarrow> pystr \<Rightarrow> pystr \<Rightarrow> 'b app \<Rightarrow> (exn + pystr option) \<times> 'b app" where
  "call_chat_try w prompt model s =
     (case import_openai w of
        Some e \<Rightarrow> (Inl e, s)
      | None \<Rightarrow>
         (case OpenAI w (environ w (lit ''OPENAI_API_KEY'')) of
            Some e \<Rightarrow> (Inl e, s)
          | None \<Rightarrow>
             (let m = \<lparr>role = lit ''user'', content = prompt,
                       promptID = int (length (chatContent s)) + 1\<rparr>;
                  s1 = emit (AppendChat m) (s\<lparr>chatContent := chatContent s @ [m]\<rparr>);
                  s2 = emit (CreateCompletion model (chatContent s1)) s1
              in case completions_create w model (chatContent s1) of
                   Inl e \<Rightarrow> (Inl e, s2)
                 | Inr choices \<Rightarrow>
                    (case py_index choices 0 of
                       Inl e \<Rightarrow> (Inl e, s2)
                     | Inr c \<Rightarrow> (Inr c, s2)))))"

text \<open>\<open>call_chat\<close>: the \<open>try\<close> block under its handler \<open>except Exception as err\<close>.\<close>

definition call_chat ::
  "world \<Rightarrow> pystr \<Rightarrow> pystr \<Rightarrow> 'b app \<Rightarrow> (exn + pystr option) \<times> 'b app" where
  "call_chat w prompt model s =
     (case call_chat_try w prompt model s of
        (Inl (Exception err), s') \<Rightarrow> (Inr (Some (lit ''OpenAI error: '' @ err)), s')
      | (Inr r, s') \<Rightarrow> (Inr r, s'))"

section \<open>Theme and rendering\<close>

definition NEON_RED :: pystr where
  "NEON_RED = 27 # lit ''[38;2;255;60;60m''"

definition NEON_GREEN :: pystr where
  "NEON_GREEN = 27 # lit ''[38;2;0;255;140m''"

definition NEON_BLUE :: pystr where
  "NEON_BLUE = 27 # lit ''[38;2;0;210;255m''"

definition NEON_PINK :: pystr where
  "NEON_PINK = 27 # lit ''[38;2;255;0;200m''"

definition DIM :: pystr where
  "DIM = 27 # lit ''[2m''"

definition RESET :: pystr where
  "RESET = 27 # lit ''[0m''"

text \<open>\<open>md_to_ansi\<close>, applied to what \<open>call_chat\<close> returned.\<close>

definition md_to_ansi :: "'b toolkit \<Rightarrow> pystr option \<Rightarrow> exn + pystr" where
  "md_to_ansi tk text =
     (case text of
        None \<Rightarrow> Inl (markdown_none tk)
      | Some t \<Rightarrow> Inr (console_print_markdown tk 100 (lit ''monokai'') t))"

definition append_output :: "'b toolkit \<Rightarrow> pystr \<Rightarrow> 'b app \<Rightarrow> 'b app" where
  "append_output tk ansi_text s =
     (let s1 = emit (InsertText ansi_text)
                 (s\<lparr>output_area := insert_text tk (output_area s) ansi_text\<rparr>);
          s2 = emit (CursorDown (10 ^ 6))
                 (s1\<lparr>output_area := cursor_down tk (output_area s1) (10 ^ 6)\<rparr>)
      in emit Invalidate s2)"

section \<open>The send orchestrator\<close>

definition status_thinking :: pystr where
  "status_thinking = NEON_GREEN @ lit ''Status:'' @ RESET @ lit '' Thinking'' @ [8230]"

definition status_ready :: pystr where
  "status_ready = NEON_GREEN @ lit ''Status:'' @ RESET @ lit '' Ready''"

definition you_line :: "pystr \<Rightarrow> pystr" where
  "you_line prompt =
     [10] @ NEON_GREEN @ [10148] @ lit '' [You]:'' @ RESET @ lit '' '' @ prompt @ [10]"

definition separator :: pystr where
  "separator = NEON_PINK @ replicate 60 9472 @ RESET @ [10]"

definition set_status :: "pystr \<Rightarrow> 'b app \<Rightarrow> 'b app" where
  "set_status t s = emit (SetStatus t) (s\<lparr>status := t\<rparr>)"

text \<open>
  \<open>loop.run_in_executor(None, f, ...)\<close> awaited: \<open>f\<close> runs in a worker thread, and the
  coroutine resumes on the event loop with its result (or its exception).
\<close>

definition run_in_executor :: "('b app \<Rightarrow> 'r \<times> 'b app) \<Rightarrow> 'b app \<Rightarrow> 'r \<times> 'b app" where
  "run_in_executor f s =
     (case f (s\<lparr>running_on := Worker\<rparr>) of (r, s') \<Rightarrow> (r, s'\<lparr>running_on := running_on s\<rparr>))"

text \<open>Lines 152 to 158 of \<open>handle_send\<close>: from clearing the input to the status.\<close>

definition handle_send_begin :: "'b toolkit \<Rightarrow> pystr \<Rightarrow> 'b app \<Rightarrow> 'b app" where
  "handle_send_begin tk prompt s =
     (let s1 = emit (SetInputText []) (s\<lparr>input_area := []\<rparr>);
          s2 = append_output tk (you_line prompt) s1
      in set_status status_thinking s2)"

text \<open>
  Lines 167 to 174 of \<open>handle_send\<close>: what follows the awaited call. The argument of
  \<open>append_output\<close> is evaluated first, so an exception of \<open>md_to_ansi\<close> leaves the
  coroutine before anything is appended; no handler surrounds these lines.
\<close>

definition handle_send_finish ::
  "'b toolkit \<Rightarrow> pystr option \<Rightarrow> 'b app \<Rightarrow> exn option \<times> 'b app" where
  "handle_send_finish tk response s =
     (case md_to_ansi tk response of
        Inl e \<Rightarrow> (Some e, s)
      | Inr rendered \<Rightarrow>
         (let s1 = append_output tk (separator @ rendered @ [10] @ separator) s;
              s2 = set_status status_ready s1
          in (None, emit (FocusWidget InputArea) (s2\<lparr>focus := InputArea\<rparr>))))"

definition chat_model :: "world \<Rightarrow> pystr" where
  "chat_model w =
     (case environ w (lit ''CHAT_MODEL'') of None \<Rightarrow> lit ''gpt-4o-mini'' | Some m \<Rightarrow> m)"

text \<open>
  \<open>handle_send\<close>. The first component of the result is the exception the coroutine
  ends with, if any.
\<close>

definition handle_send :: "'b toolkit \<Rightarrow> world \<Rightarrow> 'b app \<Rightarrow> exn option \<times> 'b app" where
  "handle_send tk w s =
     (let prompt = strip (input_area s)
      in if prompt = [] then (None, s)
         else
           (let s1 = handle_send_begin tk prompt s;
                model = chat_model w
            in case run_in_executor (call_chat w prompt model) s1 of
                 (Inl e, s2) \<Rightarrow> (Some e, s2)
               | (Inr response, s2) \<Rightarrow> handle_send_finish tk response s2))"

text \<open>The state the module creates, with the focus the \<open>pre_run\<close> hook gives.\<close>

definition initial :: "'b \<Rightarrow> 'b app" where
  "initial empty_buffer =
     \<lparr>chatContent = [], output_area = empty_buffer, input_area = [], status = status_ready,
      focus = InputArea, running_on = EventLoop, trace = []\<rparr>"

text \<open>
  The import of \<open>openai\<close> and the construction of the client both succeed: the
  condition under which \<open>call_chat\<close> reaches its \<open>chatContent.append\<close>.
\<close>

definition client_ready :: "world \<Rightarrow> bool" where
  "client_ready w \<longleftrightarrow>
     import_openai w = None \<and> OpenAI w (environ w (lit ''OPENAI_API_KEY'')) = None"

text \<open>The dict \<open>call_chat\<close> appends for a prompt in a given state.\<close>

definition user_message :: "pystr \<Rightarrow> 'b app \<Rightarrow> chat_message" where
  "user_message prompt s =
     \<lparr>role = lit ''user'', content = prompt, promptID = int (length (chatContent s)) + 1\<rparr>"

section \<open>Overlapping sends\<close>

text \<open>
  \<open>submit\<close> starts one coroutine per Enter, and nothing waits for an earlier send: the
  coroutines take turns on the event loop, and each \<open>call_chat\<close> runs in a thread of
  the pool, where threads are switched between any two operations. A send is therefore
  also given as the sequence of its steps, so that the steps of several sends can be
  interleaved; reading \<open>len(chatContent)\<close> and calling \<open>append\<close> are different steps.
  Between its steps a send is at one of these stages, which hold its local variables:
  \<^item> \<open>Created\<close>: the coroutine has been created by \<open>submit\<close> and has not run yet;
  \<^item> \<open>Dispatched prompt model\<close>: lines 148 to 165 have run, \<open>call_chat\<close> is with the
    executor;
  \<^item> \<open>ClientReady prompt model\<close>: the import and the client's construction succeeded;
  \<^item> \<open>Built model m\<close>: the dict \<open>m\<close> is built, with \<open>len(chatContent) + 1\<close> read, and
    \<open>append\<close> is not yet called;
  \<^item> \<open>Appended model\<close>: the dict is in \<open>chatContent\<close>, the request is not yet made;
  \<^item> \<open>Returned r\<close>: \<open>call_chat\<close> has returned \<open>r\<close>, the coroutine has not resumed;
  \<^item> \<open>Finished e\<close>: the coroutine has ended, with the exception \<open>e\<close> if any.
\<close>

datatype stage =
    Created
  | Dispatched pystr pystr
  | ClientReady pystr pystr
  | Built pystr chat_message
  | Appended pystr
  | Returned "pystr option"
  | Finished "exn option"

text \<open>The steps of \<open>call_chat\<close>, with its handler applied where a step raises.\<close>

fun call_chat_step :: "world \<Rightarrow> stage \<Rightarrow> 'b app \<Rightarrow> stage \<times> 'b app" where
  "call_chat_step w (Dispatched prompt model) s =
     (case import_openai w of
        Some (Exception err) \<Rightarrow> (Returned (Some (lit ''OpenAI error: '' @ err)), s)
      | None \<Rightarrow>
         (case OpenAI w (environ w (lit ''OPENAI_API_KEY'')) of
            Some (Exception err) \<Rightarrow> (Returned (Some (lit ''OpenAI error: '' @ err)), s)
          | None \<Rightarrow> (ClientReady prompt model, s)))"
| "call_chat_step w (ClientReady prompt model) s =
     (Built model \<lparr>role = lit ''user'', content = prompt,
                   promptID = int (length (chatContent s)) + 1\<rparr>, s)"
| "call_chat_step w (Built model m) s =
     (Appended model, emit (AppendChat m) (s\<lparr>chatContent := chatContent s @ [m]\<rparr>))"
| "call_chat_step w (Appended model) s =
     (let s' = emit (CreateCompletion model (chatContent s)) s
      in case completions_create w model (chatContent s) of
           Inl (Exception err) \<Rightarrow> (Returned (Some (lit ''OpenAI error: '' @ err)), s')
         | Inr choices \<Rightarrow>
            (case py_index choices 0 of
               Inl (Exception err) \<Rightarrow> (Returned (Some (lit ''OpenAI error: '' @ err)), s')
             | Inr c \<Rightarrow> (Returned c, s')))"
| "call_chat_step w Created s = (Created, s)"
| "call_chat_step w (Returned r) s = (Returned r, s)"
| "call_chat_step w (Finished e) s = (Finished e, s)"

text \<open>
  One step of a send: the two parts of the coroutine on the event loop, the steps of
  \<open>call_chat\<close> in the worker.
\<close>

fun send_step :: "'b toolkit \<Rightarrow> world \<Rightarrow> stage \<Rightarrow> 'b app \<Rightarrow> stage \<times> 'b app" where
  "send_step tk w Created s =
     (let prompt = strip (input_area s)
      in if prompt = [] then (Finished None, s)
         else (Dispatched prompt (chat_model w), handle_send_begin tk prompt s))"
| "send_step tk w (Returned response) s =
     (case handle_send_finish tk response s of (e, s') \<Rightarrow> (Finished e, s'))"
| "send_step tk w (Finished e) s = (Finished e, s)"
| "send_step tk w (Dispatched prompt model) s =
     run_in_executor (call_chat_step w (Dispatched prompt model)) s"
| "send_step tk w (ClientReady prompt model) s =
     run_in_executor (call_chat_step w (ClientReady prompt model)) s"
| "send_step tk w (Built model m) s = run_in_executor (call_chat_step w (Built model m)) s"
| "send_step tk w (Appended model) s = run_in_executor (call_chat_step w (Appended model)) s"

text \<open>The steps of one send, one after another with nothing in between.\<close>

definition send_alone :: "'b toolkit \<Rightarrow> world \<Rightarrow> 'b app \<Rightarrow> stage \<times> 'b app" where
  "send_alone tk w s =
     (case send_step tk w Created s of (st1, s1) \<Rightarrow>
      case send_step tk w st1 s1 of (st2, s2) \<Rightarrow>
      case send_step tk w st2 s2 of (st3, s3) \<Rightarrow>
      case send_step tk w st3 s3 of (st4, s4) \<Rightarrow>
      case send_step tk w st4 s4 of (st5, s5) \<Rightarrow>
      send_step tk w st5 s5)"

text \<open>
  What happens while the program runs: the user changes the text of the input area,
  the user presses Enter (a new send, which will meet the given outside world), or the
  send with the given number takes its next step. A run is any list of these, so sends
  overlap in every way the threads and the event loop allow.
\<close>

datatype action = Type pystr | Enter world | Step nat

type_synonym 'b process = "'b app \<times> (world \<times> stage) list"

fun act :: "'b toolkit \<Rightarrow> action \<Rightarrow> 'b process \<Rightarrow> 'b process" where
  "act tk (Type text) (s, sends) = (s\<lparr>input_area := text\<rparr>, sends)"
| "act tk (Enter w) (s, sends) = (s, sends @ [(w, Created)])"
| "act tk (Step i) (s, sends) =
     (if i < length sends
      then (case sends ! i of (w, st) \<Rightarrow>
              (case send_step tk w st s of (st', s') \<Rightarrow> (s', sends[i := (w, st')])))
      else (s, sends))"

definition run :: "'b toolkit \<Rightarrow> action list \<Rightarrow> 'b process \<Rightarrow> 'b process" where
  "run tk actions p = fold (act tk) actions p"

text \<open>
  The sends that have built their dict and not yet appended it, and the runs in which
  there is never more than one of them.
\<close>

fun is_Built :: "world \<times> stage \<Rightarrow> bool" where
  "is_Built (w, Built model m) = True"
| "is_Built (w, st) = False"

definition building :: "'b process \<Rightarrow> nat" where
  "building p = length (filter is_Built (snd p))"

fun one_at_a_time :: "'b toolkit \<Rightarrow> action list \<Rightarrow> 'b process \<Rightarrow> bool" where
  "one_at_a_time tk [] p = (building p \<le> 1)"
| "one_at_a_time tk (a # actions) p = (building p \<le> 1 \<and> one_at_a_time tk actions (act tk a p))"

section \<open>Concrete inputs\<close>

text \<open>
  A buffer that is its text, a printer that returns the markdown as it is, and
  outside worlds: the service answers, the request fails, and no API key is set so
  that the client cannot be constructed.
\<close>

definition example_toolkit :: "pystr toolkit" where
  "example_toolkit =
     \<lparr>insert_text = (\<lambda>b t. b @ t), cursor_down = (\<lambda>b n. b),
      console_print_markdown = (\<lambda>width theme text. text),
      markdown_none = Exception (lit ''Input data should be a string'')\<rparr>"

definition world_ok :: world where
  "world_ok =
     \<lparr>environ = (\<lambda>k. None), import_openai = None, OpenAI = (\<lambda>key. None),
      completions_create = (\<lambda>model messages. Inr [Some (lit ''Hi there'')])\<rparr>"

definition world_down :: world where
  "world_down =
     \<lparr>environ = (\<lambda>k. None), import_openai = None, OpenAI = (\<lambda>key. None),
      completions_create = (\<lambda>model messages. Inl (Exception (lit ''Connection error.'')))\<rparr>"

definition world_no_key :: world where
  "world_no_key =
     \<lparr>environ = (\<lambda>k. None), import_openai = None,
      OpenAI = (\<lambda>key. case key of None \<Rightarrow> Some (Exception (lit ''api_key must be set''))
                              | Some k \<Rightarrow> None),
      completions_create = (\<lambda>model messages. Inr [Some (lit ''Hi there'')])\<rparr>"

definition state_hello :: "pystr app" where
  "state_hello = (initial [])\<lparr>input_area := lit ''Hello''\<rparr>"

definition state_blank :: "pystr app" where
  "state_blank = (initial [])\<lparr>input_area := lit ''   ''\<rparr>"

text \<open>The same input, after the user has clicked into the response pane.\<close>

definition state_hello_clicked :: "pystr app" where
  "state_hello_clicked = state_hello\<lparr>focus := OutputArea\<rparr>"

text \<open>A service whose first choice has no content.\<close>

definition world_none :: world where
  "world_none =
     \<lparr>environ = (\<lambda>k. None), import_openai = None, OpenAI = (\<lambda>key. None),
      completions_create = (\<lambda>model messages. Inr [None])\<rparr>"

text \<open>
  Two sends of \<open>Hello\<close>. In \<open>overlapping_sends\<close> both build their dict before either
  appends; in \<open>staggered_sends\<close> the second send is started while the first is under
  way, and builds its dict after the first has appended.
\<close>

definition overlapping_sends :: "action list" where
  "overlapping_sends =
     [Type (lit ''Hello''), Enter world_ok, Step 0, Type (lit ''Hello''), Enter world_ok, Step 1,
      Step 0, Step 1, Step 0, Step 1, Step 0, Step 1]"

definition staggered_sends :: "action list" where
  "staggered_sends =
     [Type (lit ''Hello''), Enter world_ok, Step 0, Type (lit ''Hello''), Enter world_down, Step 1,
      Step 0, Step 1, Step 0, Step 0, Step 1, Step 1]"

text \<open>The transcript invariant: the ids are 1, 2, ..., in this order.\<close>

definition ids_ok :: "chat_message list \<Rightarrow> bool" where
  "ids_ok cc \<longleftrightarrow> map promptID cc = map int [1..<Suc (length cc)]"

text \<open>
  The invariant of the runs in which dicts are built one at a time: the ids are in
  order, and a dict that is built and not yet appended carries the next id.
\<close>

definition ids_inv :: "'b process \<Rightarrow> bool" where
  "ids_inv p \<longleftrightarrow>
     ids_ok (chatContent (fst p)) \<and>
     (\<forall>x\<in>set (snd p). \<forall>model m. snd x = Built model m \<longrightarrow>
        promptID m = int (length (chatContent (fst p))) + 1)"


section \<open>Basic facts\<close>

lemma emit_fields [simp]:
  "chatContent (emit ev s) = chatContent s"
  "output_area (emit ev s) = output_area s"
  "input_area (emit ev s) = input_area s"
  "status (emit ev s) = status s"
  "focus (emit ev s) = focus s"
  "running_on (emit ev s) = running_on s"
  "trace (emit ev s) = trace s @ [(running_on s, ev)]"
  by (simp_all add: emit_def)

lemma append_output_fields [simp]:
  "chatContent (append_output tk t s) = chatContent s"
  "input_area (append_output tk t s) = input_area s"
  "status (append_output tk t s) = status s"
  "focus (append_output tk t s) = focus s"
  "running_on (append_output tk t s) = running_on s"
  "output_area (append_output tk t s) = cursor_down tk (insert_text tk (output_area s) t) (10 ^ 6)"
  "trace (append_output tk t s) =
     trace s @ [(running_on s, InsertText t), (running_on s, CursorDown (10 ^ 6)),
                (running_on s, Invalidate)]"
  by (simp_all add: append_output_def Let_def)

lemma set_status_fields [simp]:
  "chatContent (set_status t s) = chatContent s"
  "output_area (set_status t s) = output_area s"
  "input_area (set_status t s) = input_area s"
  "status (set_status t s) = t"
  "focus (set_status t s) = focus s"
  "running_on (set_status t s) = running_on s"
  "trace (set_status t s) = trace s @ [(running_on s, SetStatus t)]"
  by (simp_all add: set_status_def)

lemma handle_send_begin_fields [simp]:
  "chatContent (handle_send_begin tk p s) = chatContent s"
  "input_area (handle_send_begin tk p s) = []"
  "status (handle_send_begin tk p s) = status_thinking"
  "focus (handle_send_begin tk p s) = focus s"
  "running_on (handle_send_begin tk p s) = running_on s"
  "output_area (handle_send_begin tk p s) =
     cursor_down tk (insert_text tk (output_area s) (you_line p)) (10 ^ 6)"
  "trace (handle_send_begin tk p s) =
     trace s @ [(running_on s, SetInputText []), (running_on s, InsertText (you_line p)),
                (running_on s, CursorDown (10 ^ 6)), (running_on s, Invalidate),
                (running_on s, SetStatus status_thinking)]"
  by (simp_all add: handle_send_begin_def Let_def)

lemma handle_send_finish_None [simp]:
  "handle_send_finish tk None s = (Some (markdown_none tk), s)"
  by (simp add: handle_send_finish_def md_to_ansi_def)

lemma handle_send_finish_Some [simp]:
  "fst (handle_send_finish tk (Some t) s) = None"
  "chatContent (snd (handle_send_finish tk (Some t) s)) = chatContent s"
  "input_area (snd (handle_send_finish tk (Some t) s)) = input_area s"
  "status (snd (handle_send_finish tk (Some t) s)) = status_ready"
  "focus (snd (handle_send_finish tk (Some t) s)) = InputArea"
  "running_on (snd (handle_send_finish tk (Some t) s)) = running_on s"
  "output_area (snd (handle_send_finish tk (Some t) s)) =
     cursor_down tk
       (insert_text tk (output_area s)
          (separator @ console_print_markdown tk 100 (lit ''monokai'') t @ [10] @ separator))
       (10 ^ 6)"
  "trace (snd (handle_send_finish tk (Some t) s)) =
     trace s @
     [(running_on s, InsertText
         (separator @ console_print_markdown tk 100 (lit ''monokai'') t @ [10] @ separator)),
      (running_on s, CursorDown (10 ^ 6)), (running_on s, Invalidate),
      (running_on s, SetStatus status_ready), (running_on s, FocusWidget InputArea)]"
  by (simp_all add: handle_send_finish_def md_to_ansi_def Let_def)

lemma handle_send_finish_chatContent [simp]:
  "chatContent (snd (handle_send_finish tk r s)) = chatContent s"
  by (cases r) simp_all

lemma call_chat_try_state:
  "snd (call_chat_try w p m s) =
     (if client_ready w
      then emit (CreateCompletion m (chatContent s @ [user_message p s]))
             (emit (AppendChat (user_message p s))
                (s\<lparr>chatContent := chatContent s @ [user_message p s]\<rparr>))
      else s)"
  by (auto simp: call_chat_try_def client_ready_def user_message_def Let_def
           split: option.splits sum.splits)

lemma call_chat_state:
  "snd (call_chat w p m s) = snd (call_chat_try w p m s)"
  by (simp add: call_chat_def split: prod.splits sum.splits exn.splits)

lemma call_chat_returns:
  "\<exists>r. fst (call_chat w p m s) = Inr r"
  by (simp add: call_chat_def split: prod.splits sum.splits exn.splits)

lemma call_chat_fst_state:
  "fst (call_chat w p m (s\<lparr>running_on := c\<rparr>)) = fst (call_chat w p m s)"
  by (simp add: call_chat_def call_chat_try_def emit_def Let_def
           split: prod.splits sum.splits exn.splits option.splits)

lemma handle_send_unfold:
  assumes "strip (input_area s) \<noteq> []"
  shows "\<exists>r. fst (call_chat w (strip (input_area s)) (chat_model w)
                 (handle_send_begin tk (strip (input_area s)) s)) = Inr r \<and>
             handle_send tk w s =
               handle_send_finish tk r
                  ((snd (call_chat w (strip (input_area s)) (chat_model w)
                       ((handle_send_begin tk (strip (input_area s)) s)\<lparr>running_on := Worker\<rparr>)))
                   \<lparr>running_on := running_on s\<rparr>)"
proof -
  define p where "p = strip (input_area s)"
  define s1 where "s1 = handle_send_begin tk p s"
  obtain r where r: "fst (call_chat w p (chat_model w) s1) = Inr r"
    using call_chat_returns by blast
  then have r': "fst (call_chat w p (chat_model w) (s1\<lparr>running_on := Worker\<rparr>)) = Inr r"
    by (simp add: call_chat_fst_state)
  obtain s2 where c: "call_chat w p (chat_model w) (s1\<lparr>running_on := Worker\<rparr>) = (Inr r, s2)"
    using r' by (cases "call_chat w p (chat_model w) (s1\<lparr>running_on := Worker\<rparr>)") simp
  have "running_on s1 = running_on s"
    by (simp add: s1_def)
  with assms c have "handle_send tk w s =
          handle_send_finish tk r
             ((snd (call_chat w p (chat_model w) (s1\<lparr>running_on := Worker\<rparr>)))
              \<lparr>running_on := running_on s\<rparr>)"
    unfolding handle_send_def run_in_executor_def Let_def p_def [symmetric] s1_def [symmetric]
    by simp
  with r show ?thesis
    unfolding p_def s1_def by blast
qed

lemma handle_send_empty:
  "strip (input_area s) = [] \<Longrightarrow> handle_send tk w s = (None, s)"
  by (simp add: handle_send_def)

lemma handle_send_chatContent:
  assumes "strip (input_area s) \<noteq> []"
  shows "chatContent (snd (handle_send tk w s)) =
           (if client_ready w
            then chatContent s @ [user_message (strip (input_area s)) s]
            else chatContent s)"
proof -
  from handle_send_unfold [OF assms, of w tk] obtain r where
    "handle_send tk w s =
       handle_send_finish tk r
          ((snd (call_chat w (strip (input_area s)) (chat_model w)
               ((handle_send_begin tk (strip (input_area s)) s)\<lparr>running_on := Worker\<rparr>)))
           \<lparr>running_on := running_on s\<rparr>)"
    by blast
  then show ?thesis
    by (simp add: call_chat_state call_chat_try_state user_message_def)
qed

text \<open>The events of a send up to the return of \<open>call_chat\<close>.\<close>

lemma handle_send_trace:
  assumes "strip (input_area s) \<noteq> []"
  shows "\<exists>r. fst (call_chat w (strip (input_area s)) (chat_model w)
                 (handle_send_begin tk (strip (input_area s)) s)) = Inr r \<and>
           fst (handle_send tk w s) =
             (case r of None \<Rightarrow> Some (markdown_none tk) | Some t \<Rightarrow> None) \<and>
           status (snd (handle_send tk w s)) =
             (case r of None \<Rightarrow> status_thinking | Some t \<Rightarrow> status_ready) \<and>
           focus (snd (handle_send tk w s)) =
             (case r of None \<Rightarrow> focus s | Some t \<Rightarrow> InputArea) \<and>
           output_area (snd (handle_send tk w s)) =
             (case r of
                None \<Rightarrow> cursor_down tk
                   (insert_text tk (output_area s) (you_line (strip (input_area s)))) (10 ^ 6)
              | Some t \<Rightarrow> cursor_down tk
                   (insert_text tk
                      (cursor_down tk
                         (insert_text tk (output_area s) (you_line (strip (input_area s))))
                         (10 ^ 6))
                      (separator @ console_print_markdown tk 100 (lit ''monokai'') t @ [10] @
                       separator))
                   (10 ^ 6)) \<and>
           trace (snd (handle_send tk w s)) =
             trace s @
             [(running_on s, SetInputText []),
              (running_on s, InsertText (you_line (strip (input_area s)))),
              (running_on s, CursorDown (10 ^ 6)),
              (running_on s, Invalidate),
              (running_on s, SetStatus status_thinking)] @
             (if client_ready w
              then [(Worker, AppendChat (user_message (strip (input_area s)) s)),
                    (Worker, CreateCompletion (chat_model w)
                       (chatContent s @ [user_message (strip (input_area s)) s]))]
              else []) @
             (case r of
                None \<Rightarrow> []
              | Some t \<Rightarrow>
                 [(running_on s, InsertText
                     (separator @ console_print_markdown tk 100 (lit ''monokai'') t @ [10] @
                      separator)),
                  (running_on s, CursorDown (10 ^ 6)),
                  (running_on s, Invalidate),
                  (running_on s, SetStatus status_ready),
                  (running_on s, FocusWidget InputArea)])"
proof -
  from handle_send_unfold [OF assms, of w tk] obtain r where
    r: "fst (call_chat w (strip (input_area s)) (chat_model w)
                 (handle_send_begin tk (strip (input_area s)) s)) = Inr r" and
    h: "handle_send tk w s =
       handle_send_finish tk r
          ((snd (call_chat w (strip (input_area s)) (chat_model w)
               ((handle_send_begin tk (strip (input_area s)) s)\<lparr>running_on := Worker\<rparr>)))
           \<lparr>running_on := running_on s\<rparr>)"
    by blast
  show ?thesis
  proof (intro exI [of _ r] conjI)
    show "fst (call_chat w (strip (input_area s)) (chat_model w)
                 (handle_send_begin tk (strip (input_area s)) s)) = Inr r"
      by (rule r)
  qed (cases r; simp add: h call_chat_state call_chat_try_state user_message_def)+
qed

lemma strip_hello: "strip (lit ''Hello'') = lit ''Hello''"
  by (simp add: strip_def lit_def py_isspace_def)

lemma strip_blank: "strip (lit ''   '') = []"
  by (simp add: strip_def lit_def py_isspace_def)

lemma lit_hello_ne: "lit ''Hello'' \<noteq> []"
  by (simp add: lit_def)

lemma ready_ok:
  "client_ready world_ok" "client_ready world_down" "\<not> client_ready world_no_key"
  "client_ready world_none"
  by (simp_all add: client_ready_def world_ok_def world_down_def world_no_key_def world_none_def)

lemma chat_model_examples:
  "chat_model world_ok = lit ''gpt-4o-mini''" "chat_model world_down = lit ''gpt-4o-mini''"
  "chat_model world_none = lit ''gpt-4o-mini''"
  by (simp_all add: chat_model_def world_ok_def world_down_def world_none_def)

lemma state_hello_fields:
  "input_area state_hello = lit ''Hello''" "chatContent state_hello = []"
  "running_on state_hello = EventLoop" "trace state_hello = []"
  "output_area state_hello = []" "status state_hello = status_ready"
  "focus state_hello = InputArea"
  by (simp_all add: state_hello_def initial_def)

lemma state_hello_clicked_fields:
  "input_area state_hello_clicked = lit ''Hello''" "chatContent state_hello_clicked = []"
  "running_on state_hello_clicked = EventLoop" "trace state_hello_clicked = []"
  "output_area state_hello_clicked = []" "status state_hello_clicked = status_ready"
  "focus state_hello_clicked = OutputArea"
  by (simp_all add: state_hello_clicked_def state_hello_def initial_def)

lemma call_chat_ok:
  "chatContent s = [] \<Longrightarrow> fst (call_chat world_ok p m s) = Inr (Some (lit ''Hi there''))"
  by (simp add: call_chat_def call_chat_try_def world_ok_def Let_def py_index_def)

lemma call_chat_down:
  "fst (call_chat world_down p m s) =
     Inr (Some (lit ''OpenAI error: '' @ lit ''Connection error.''))"
  by (simp add: call_chat_def call_chat_try_def world_down_def Let_def)

lemma call_chat_none:
  "fst (call_chat world_none p m s) = Inr None"
  by (simp add: call_chat_def call_chat_try_def world_none_def Let_def py_index_def)

lemma example_toolkit_fields:
  "insert_text example_toolkit b t = b @ t"
  "cursor_down example_toolkit b n = b"
  "console_print_markdown example_toolkit width theme text = text"
  "markdown_none example_toolkit = Exception (lit ''Input data should be a string'')"
  by (simp_all add: example_toolkit_def)

lemma status_thinking_not_ready: "status_thinking \<noteq> status_ready"
  by (simp add: status_thinking_def status_ready_def lit_def)

text \<open>The steps of a send, taken together, are \<open>handle_send\<close>.\<close>

lemma run_in_executor_same [simp]:
  "run_in_executor (\<lambda>s. (r, s)) s = (r, s)"
  by (simp add: run_in_executor_def)

lemma send_alone_is_handle_send:
  "send_alone tk w s = (Finished (fst (handle_send tk w s)), snd (handle_send tk w s))"
proof (cases "strip (input_area s) = []")
  case True
  then show ?thesis
    by (simp add: send_alone_def handle_send_def)
next
  case False
  define p where "p = strip (input_area s)"
  define s1 where "s1 = handle_send_begin tk p s"
  have r1: "running_on s1 = running_on s"
    by (simp add: s1_def)
  have first: "send_step tk w Created s = (Dispatched p (chat_model w), s1)"
    using False by (simp add: p_def s1_def Let_def)
  have hs: "handle_send tk w s =
      (case run_in_executor (call_chat w p (chat_model w)) s1 of
         (Inl e, s2) \<Rightarrow> (Some e, s2)
       | (Inr response, s2) \<Rightarrow> handle_send_finish tk response s2)"
    using False by (simp add: handle_send_def Let_def p_def s1_def)
  show ?thesis
  proof (cases "import_openai w")
    case (Some e)
    obtain err where e: "e = Exception err"
      by (cases e)
    show ?thesis
      unfolding send_alone_def first hs
      by (simp add: Some e run_in_executor_def call_chat_def call_chat_try_def r1 [symmetric]
            case_prod_beta)
  next
    case None
    note imp = None
    show ?thesis
    proof (cases "OpenAI w (environ w (lit ''OPENAI_API_KEY''))")
      case (Some e)
      obtain err where e: "e = Exception err"
        by (cases e)
      show ?thesis
        unfolding send_alone_def first hs
        by (simp add: imp Some e run_in_executor_def call_chat_def call_chat_try_def
              r1 [symmetric] case_prod_beta)
    next
      case None
      note cli = None
      define m where "m = \<lparr>role = lit ''user'', content = p,
                             promptID = int (length (chatContent s1)) + 1\<rparr>"
      show ?thesis
      proof (cases "completions_create w (chat_model w) (chatContent s1 @ [m])")
        case (Inl e)
        obtain err where e: "e = Exception err"
          by (cases e)
        show ?thesis
          unfolding send_alone_def first hs
          using Inl
          by (simp add: imp cli e m_def run_in_executor_def call_chat_def call_chat_try_def
                r1 [symmetric] case_prod_beta Let_def emit_def)
      next
        case (Inr choices)
        show ?thesis
        proof (cases "py_index choices 0")
          case (Inl e)
          obtain err where e: "e = Exception err"
            by (cases e)
          show ?thesis
            unfolding send_alone_def first hs
            using Inr Inl
            by (simp add: imp cli e m_def run_in_executor_def call_chat_def call_chat_try_def
                  r1 [symmetric] case_prod_beta Let_def emit_def)
        next
          case c: (Inr c)
          show ?thesis
            unfolding send_alone_def first hs
            using Inr c
            by (simp add: imp cli m_def run_in_executor_def call_chat_def call_chat_try_def
                  r1 [symmetric] case_prod_beta Let_def emit_def)
        qed
      qed
    qed
  qed
qed

lemma ids_ok_append:
  "ids_ok cc \<Longrightarrow> promptID m = int (length cc) + 1 \<Longrightarrow> ids_ok (cc @ [m])"
  by (simp add: ids_ok_def)

lemma ids_ok_increasing: "ids_ok cc \<Longrightarrow> sorted_wrt (<) (map promptID cc)"
  by (simp add: ids_ok_def sorted_wrt_map del: upt_Suc)

lemma ids_ok_distinct: "ids_ok cc \<Longrightarrow> distinct (map promptID cc)"
  by (simp add: ids_ok_def distinct_map del: upt_Suc)

lemma call_chat_chatContent:
  "chatContent (snd (call_chat w p m s)) =
     (if client_ready w then chatContent s @ [user_message p s] else chatContent s)"
  by (simp add: call_chat_state call_chat_try_state)

lemma run_in_executor_chatContent:
  "chatContent (snd (run_in_executor f s)) = chatContent (snd (f (s\<lparr>running_on := Worker\<rparr>)))"
  by (simp add: run_in_executor_def case_prod_beta)

lemma run_in_executor_fst:
  "fst (run_in_executor f s) = fst (f (s\<lparr>running_on := Worker\<rparr>))"
  by (simp add: run_in_executor_def case_prod_beta)

text \<open>What one step of a send does to the transcript.\<close>

lemma send_step_chatContent:
  "chatContent (snd (send_step tk w st s)) =
     (case st of Built model m \<Rightarrow> chatContent s @ [m] | _ \<Rightarrow> chatContent s)"
proof (cases st)
  case (Dispatched p m)
  then show ?thesis
    by (auto simp: run_in_executor_chatContent split: option.splits exn.splits)
next
  case (Appended m)
  then show ?thesis
    by (auto simp: run_in_executor_chatContent Let_def split: sum.splits exn.splits)
next
  case (Returned r)
  then show ?thesis
    by (simp add: case_prod_beta)
qed (simp_all add: run_in_executor_chatContent Let_def)

lemma send_step_Built_iff:
  "is_Built (w', fst (send_step tk w st s)) \<longleftrightarrow> (\<exists>p m. st = ClientReady p m)"
proof (cases st)
  case (Dispatched p m)
  then show ?thesis
    by (auto simp: run_in_executor_fst split: option.splits exn.splits)
next
  case (Appended m)
  then show ?thesis
    by (auto simp: run_in_executor_fst Let_def split: sum.splits exn.splits)
next
  case (Returned r)
  then show ?thesis
    by (simp add: case_prod_beta)
qed (simp_all add: run_in_executor_fst Let_def)

lemma send_step_ClientReady:
  "send_step tk w (ClientReady p model) s =
     (Built model \<lparr>role = lit ''user'', content = p,
                   promptID = int (length (chatContent s)) + 1\<rparr>, s)"
  by (simp add: run_in_executor_def)

lemma act_prefix: "prefix (chatContent (fst p)) (chatContent (fst (act tk a p)))"
proof (cases p)
  case (Pair s sends)
  show ?thesis
  proof (cases a)
    case (Step i)
    show ?thesis
    proof (cases "i < length sends")
      case True
      obtain w st where x: "sends ! i = (w, st)"
        by (cases "sends ! i")
      have "prefix (chatContent s) (chatContent (snd (send_step tk w st s)))"
        unfolding send_step_chatContent by (cases st) simp_all
      with True x show ?thesis
        by (simp add: Pair Step case_prod_beta)
    next
      case False
      then show ?thesis
        by (simp add: Pair Step)
    qed
  qed (simp_all add: Pair)
qed

lemma run_prefix: "prefix (chatContent (fst p)) (chatContent (fst (run tk actions p)))"
proof (induction actions arbitrary: p)
  case Nil
  then show ?case
    by (simp add: run_def)
next
  case (Cons a actions)
  have "prefix (chatContent (fst p)) (chatContent (fst (act tk a p)))"
    by (rule act_prefix)
  also have "prefix \<dots> (chatContent (fst (run tk actions (act tk a p))))"
    by (rule Cons.IH)
  finally show ?case
    by (simp add: run_def)
qed

text \<open>With one dict built, the other sends have none.\<close>

lemma only_one_Built:
  "i < length xs \<Longrightarrow> is_Built (xs ! i) \<Longrightarrow> length (filter is_Built xs) \<le> 1 \<Longrightarrow>
   x \<in> set (xs[i := y]) \<Longrightarrow> x = y \<or> \<not> is_Built x"
proof (induction xs arbitrary: i)
  case Nil
  then show ?case by simp
next
  case (Cons a xs)
  show ?case
  proof (cases i)
    case 0
    with Cons.prems have "filter is_Built xs = []"
      by simp
    then have "\<forall>z\<in>set xs. \<not> is_Built z"
      by (simp add: filter_empty_conv)
    with Cons.prems 0 show ?thesis
      by auto
  next
    case (Suc k)
    with Cons.prems have k: "k < length xs" "is_Built (xs ! k)"
      by simp_all
    then have "xs ! k \<in> set (filter is_Built xs)"
      by simp
    then have "0 < length (filter is_Built xs)"
      by (rule length_pos_if_in_set)
    with Cons.prems(3) have na: "\<not> is_Built a" and le: "length (filter is_Built xs) \<le> 1"
      by (auto split: if_splits)
    from Cons.prems(4) Suc have "x = a \<or> x \<in> set (xs[k := y])"
      by simp
    with Cons.IH [OF k le] na show ?thesis
      by blast
  qed
qed

lemma act_ids_inv:
  assumes "ids_inv p" and "building p \<le> 1"
  shows "ids_inv (act tk a p)"
proof (cases p)
  case (Pair s sends)
  from assms(1) have ok: "ids_ok (chatContent s)"
    and built: "\<And>x model m. x \<in> set sends \<Longrightarrow> snd x = Built model m \<Longrightarrow>
                  promptID m = int (length (chatContent s)) + 1"
    by (auto simp: ids_inv_def Pair)
  show ?thesis
  proof (cases a)
    case (Type typed)
    with ok built show ?thesis
      by (auto simp: ids_inv_def Pair)
  next
    case (Enter w)
    with ok built show ?thesis
      by (auto simp: ids_inv_def Pair)
  next
    case (Step i)
    show ?thesis
    proof (cases "i < length sends")
      case False
      with ok built show ?thesis
        by (auto simp: ids_inv_def Pair Step)
    next
      case True
      obtain w st where x: "sends ! i = (w, st)"
        by (cases "sends ! i")
      obtain st' s' where step: "send_step tk w st s = (st', s')"
        by (cases "send_step tk w st s")
      have act: "act tk a p = (s', sends[i := (w, st')])"
        using True x step by (simp add: Pair Step)
      have cc: "chatContent s' =
                  (case st of Built model m \<Rightarrow> chatContent s @ [m] | _ \<Rightarrow> chatContent s)"
        using send_step_chatContent [of tk w st s] step by simp
      show ?thesis
      proof (cases "\<exists>model m. st = Built model m")
        case True
        then obtain model m where st: "st = Built model m"
          by blast
        from x st True \<open>i < length sends\<close> have "(w, Built model m) \<in> set sends"
          by (metis nth_mem)
        then have id: "promptID m = int (length (chatContent s)) + 1"
          using built by fastforce
        have st': "st' = Appended model"
          using step st by (simp add: run_in_executor_def)
        have one: "length (filter is_Built sends) \<le> 1"
          using assms(2) by (simp add: building_def Pair)
        have others: "\<not> is_Built z" if "z \<in> set (sends[i := (w, st')])" for z
          using only_one_Built [OF \<open>i < length sends\<close> _ one that] x st st'
          by auto
        have "ids_ok (chatContent s')"
          using ok id by (simp add: cc st ids_ok_append)
        moreover have "\<forall>z\<in>set (sends[i := (w, st')]). \<forall>model m. snd z \<noteq> Built model m"
        proof (intro ballI allI notI)
          fix z model' m'
          assume z: "z \<in> set (sends[i := (w, st')])" and b: "snd z = Built model' m'"
          from b have "is_Built z"
            by (cases z) simp
          with others [OF z] show False
            by simp
        qed
        ultimately show ?thesis
          by (simp add: ids_inv_def act)
      next
        case False
        then have same: "chatContent s' = chatContent s"
          using cc by (cases st) simp_all
        have "promptID m = int (length (chatContent s)) + 1"
          if z: "z \<in> set (sends[i := (w, st')])" and b: "snd z = Built model m" for z model m
        proof (cases "z = (w, st')")
          case True
          with b have "is_Built (w, fst (send_step tk w st s))"
            by (simp add: step)
          then obtain p mo where cr: "st = ClientReady p mo"
            by (auto simp: send_step_Built_iff)
          from step have "send_step tk w (ClientReady p mo) s = (st', s')"
            unfolding cr .
          then have "st' = Built mo \<lparr>role = lit ''user'', content = p,
                                     promptID = int (length (chatContent s)) + 1\<rparr>"
            unfolding send_step_ClientReady by auto
          with True b show ?thesis
            by auto
        next
          case False
          with z have "z \<in> set sends"
            using set_update_subset_insert [of sends i "(w, st')"] by auto
          with b built show ?thesis
            by blast
        qed
        with ok same show ?thesis
          by (auto simp: ids_inv_def act)
      qed
    qed
  qed
qed

lemma run_ids_inv:
  "ids_inv p \<Longrightarrow> one_at_a_time tk actions p \<Longrightarrow> ids_inv (run tk actions p)"
proof (induction actions arbitrary: p)
  case Nil
  then show ?case
    by (simp add: run_def)
next
  case (Cons a actions)
  from Cons.prems have "ids_inv (act tk a p)"
    by (simp add: act_ids_inv)
  moreover from Cons.prems have "one_at_a_time tk actions (act tk a p)"
    by simp
  ultimately have "ids_inv (run tk actions (act tk a p))"
    by (rule Cons.IH)
  then show ?case
    by (simp add: run_def)
qed

lemma ids_inv_initial: "ids_inv (initial b, [])"
  by (simp add: ids_inv_def ids_ok_def initial_def)

lemma handle_send_chatContent_cases:
  "chatContent (snd (handle_send tk w s)) = chatContent s \<or>
   chatContent (snd (handle_send tk w s)) = chatContent s @ [user_message (strip (input_area s)) s]"
proof (cases "strip (input_area s) = []")
  case True
  then show ?thesis by (simp add: handle_send_def)
next
  case False
  then show ?thesis by (simp add: handle_send_chatContent)
qed

lemmas eval_run =
  run_def overlapping_sends_def staggered_sends_def initial_def strip_hello lit_hello_ne
  run_in_executor_def world_ok_def world_down_def Let_def py_index_def building_def
  chat_model_def

lemma strip_eq_Nil_iff: "strip s = [] \<longleftrightarrow> (\<forall>c\<in>set s. py_isspace c)"
proof
  assume "strip s = []"
  then have all: "\<forall>c\<in>set (dropWhile py_isspace s). py_isspace c"
    by (simp add: strip_def dropWhile_eq_Nil_conv)
  have "dropWhile py_isspace s = []"
  proof (rule ccontr)
    assume ne: "dropWhile py_isspace s \<noteq> []"
    then have "\<not> py_isspace (hd (dropWhile py_isspace s))"
      by (rule hd_dropWhile)
    moreover from ne have "hd (dropWhile py_isspace s) \<in> set (dropWhile py_isspace s)"
      by simp
    ultimately show False
      using all by blast
  qed
  then show "\<forall>c\<in>set s. py_isspace c"
    by (simp add: dropWhile_eq_Nil_conv)
next
  assume "\<forall>c\<in>set s. py_isspace c"
  then show "strip s = []"
    by (auto simp: strip_def dropWhile_eq_Nil_conv dest: set_dropWhileD)
qed

text \<open>
  A send whose call returns a text ends in the rendering, the status Ready and the
  focus on the input area; one whose call returns \<open>None\<close> ends with the exception of
  \<open>md_to_ansi\<close>, after the echoed prompt and with the status Thinking.
\<close>

lemma handle_send_text_returned:
  assumes "strip (input_area s) \<noteq> []"
    and "fst (call_chat w (strip (input_area s)) (chat_model w)
               (handle_send_begin tk (strip (input_area s)) s)) = Inr (Some text)"
  shows "fst (handle_send tk w s) = None"
    and "status (snd (handle_send tk w s)) = status_ready"
    and "focus (snd (handle_send tk w s)) = InputArea"
    and "output_area (snd (handle_send tk w s)) =
           cursor_down tk
             (insert_text tk
                (cursor_down tk
                   (insert_text tk (output_area s) (you_line (strip (input_area s))))
                   (10 ^ 6))
                (separator @ console_print_markdown tk 100 (lit ''monokai'') text @ [10] @
                 separator))
             (10 ^ 6)"
  using handle_send_trace [OF assms(1), of w tk] assms(2) by auto

lemma handle_send_none_returned:
  assumes "strip (input_area s) \<noteq> []"
    and "fst (call_chat w (strip (input_area s)) (chat_model w)
               (handle_send_begin tk (strip (input_area s)) s)) = Inr None"
  shows "fst (handle_send tk w s) = Some (markdown_none tk)"
    and "status (snd (handle_send tk w s)) = status_thinking"
    and "focus (snd (handle_send tk w s)) = focus s"
    and "output_area (snd (handle_send tk w s)) =
           cursor_down tk (insert_text tk (output_area s) (you_line (strip (input_area s))))
             (10 ^ 6)"
  using handle_send_trace [OF assms(1), of w tk] assms(2) by auto

section \<open>The transcript during a send (C1, C2)\<close>

text \<open>
  C1, as the specification states it: a send with non-empty trimmed input makes the
  transcript one entry longer at submit time and one more when the completion call has
  resolved, two in all. Counterexample: for the input \<open>Hello\<close> and a service that
  answers, the transcript is not longer when the first part of \<open>handle_send\<close> has run,
  and is one entry longer, not two, when the send has completed.
\<close>

theorem transcript_two_entries_counterexample:
  "strip (input_area state_hello) \<noteq> [] \<and>
   length (chatContent (handle_send_begin example_toolkit (strip (input_area state_hello)) state_hello))
     \<noteq> length (chatContent state_hello) + 1 \<and>
   length (chatContent (snd (handle_send example_toolkit world_ok state_hello)))
     \<noteq> length (chatContent state_hello) + 2"
proof -
  have ne: "strip (input_area state_hello) \<noteq> []"
    by (simp add: state_hello_fields strip_hello lit_hello_ne)
  show ?thesis
    using ne by (simp add: handle_send_chatContent ready_ok)
qed

text \<open>
  C1, amended: for every send with non-empty trimmed input, the transcript is unchanged
  when the first part of \<open>handle_send\<close> has run (input cleared, prompt echoed, status
  set); when the send has completed it has grown by exactly the user message, with id
  \<open>len + 1\<close>, if the import of \<open>openai\<close> and the construction of the client succeeded,
  and by nothing otherwise. The reply or error text is never appended.
\<close>

theorem transcript_grows_by_user_message_only:
  assumes "strip (input_area s) \<noteq> []"
  shows "chatContent (handle_send_begin tk (strip (input_area s)) s) = chatContent s \<and>
         chatContent (snd (handle_send tk w s)) =
           (if client_ready w
            then chatContent s @ [\<lparr>role = lit ''user'', content = strip (input_area s),
                                    promptID = int (length (chatContent s)) + 1\<rparr>]
            else chatContent s) \<and>
         length (chatContent (snd (handle_send tk w s))) =
           length (chatContent s) + (if client_ready w then 1 else 0)"
  using assms by (simp add: handle_send_chatContent user_message_def)

theorem transcript_grows_by_user_message_only_witness:
  "strip (input_area state_hello) \<noteq> [] \<and>
   chatContent (snd (handle_send example_toolkit world_down state_hello)) =
     [\<lparr>role = lit ''user'', content = lit ''Hello'', promptID = 1\<rparr>] \<and>
   chatContent (snd (handle_send example_toolkit world_no_key state_hello)) = []"
proof -
  have ne: "strip (input_area state_hello) \<noteq> []"
    by (simp add: state_hello_fields strip_hello lit_hello_ne)
  from transcript_grows_by_user_message_only [OF ne, of example_toolkit world_down]
       transcript_grows_by_user_message_only [OF ne, of example_toolkit world_no_key]
  show ?thesis
    using ne by (simp add: ready_ok state_hello_fields strip_hello)
qed

text \<open>
  C2, as the specification states it: the user message is appended to the transcript
  in the echoing step, before the status is set and before the completion call is
  dispatched, on the event loop and never in the worker. Counterexample: the trace of a
  send of \<open>Hello\<close>; the transcript is still empty after the echoing step, and the append
  is the sixth event, after the status is set, and runs in the worker.
\<close>

theorem transcript_append_in_echo_counterexample:
  "chatContent (handle_send_begin example_toolkit (strip (input_area state_hello)) state_hello) = [] \<and>
   trace (snd (handle_send example_toolkit world_ok state_hello)) =
     [(EventLoop, SetInputText []),
      (EventLoop, InsertText (you_line (lit ''Hello''))),
      (EventLoop, CursorDown (10 ^ 6)),
      (EventLoop, Invalidate),
      (EventLoop, SetStatus status_thinking),
      (Worker, AppendChat \<lparr>role = lit ''user'', content = lit ''Hello'', promptID = 1\<rparr>),
      (Worker, CreateCompletion (lit ''gpt-4o-mini'')
         [\<lparr>role = lit ''user'', content = lit ''Hello'', promptID = 1\<rparr>]),
      (EventLoop, InsertText (separator @ lit ''Hi there'' @ [10] @ separator)),
      (EventLoop, CursorDown (10 ^ 6)),
      (EventLoop, Invalidate),
      (EventLoop, SetStatus status_ready),
      (EventLoop, FocusWidget InputArea)]"
proof -
  have ne: "strip (input_area state_hello) \<noteq> []"
    by (simp add: state_hello_fields strip_hello lit_hello_ne)
  from handle_send_trace [OF ne, of world_ok example_toolkit]
  show ?thesis
    by (simp add: call_chat_ok state_hello_fields strip_hello ready_ok chat_model_examples
          example_toolkit_fields user_message_def)
qed

text \<open>
  C2, amended: during every send with non-empty trimmed input started on the event
  loop, the input is cleared, the echoed prompt is appended to the output and the
  status is set to Thinking on the event loop, with the transcript unchanged; the user
  message is appended to the transcript afterwards, inside \<open>call_chat\<close>, in the worker,
  immediately before the completion request (and only if the client could be set up).
  What follows on the event loop depends on what \<open>call_chat\<close> returned: the rendering,
  the status Ready and the focus for a text, nothing for \<open>None\<close>.
\<close>

theorem transcript_append_runs_in_worker:
  assumes "strip (input_area s) \<noteq> []" and "running_on s = EventLoop"
  shows "chatContent (handle_send_begin tk (strip (input_area s)) s) = chatContent s \<and>
         status (handle_send_begin tk (strip (input_area s)) s) = status_thinking \<and>
         (\<exists>response.
           fst (call_chat w (strip (input_area s)) (chat_model w)
                  (handle_send_begin tk (strip (input_area s)) s)) = Inr response \<and>
           trace (snd (handle_send tk w s)) =
             trace s @
             [(EventLoop, SetInputText []),
              (EventLoop, InsertText (you_line (strip (input_area s)))),
              (EventLoop, CursorDown (10 ^ 6)),
              (EventLoop, Invalidate),
              (EventLoop, SetStatus status_thinking)] @
             (if client_ready w
              then [(Worker, AppendChat \<lparr>role = lit ''user'', content = strip (input_area s),
                                          promptID = int (length (chatContent s)) + 1\<rparr>),
                    (Worker, CreateCompletion (chat_model w)
                       (chatContent s @
                          [\<lparr>role = lit ''user'', content = strip (input_area s),
                             promptID = int (length (chatContent s)) + 1\<rparr>]))]
              else []) @
             (case response of
                None \<Rightarrow> []
              | Some text \<Rightarrow>
                 [(EventLoop, InsertText
                     (separator @ console_print_markdown tk 100 (lit ''monokai'') text @ [10] @
                      separator)),
                  (EventLoop, CursorDown (10 ^ 6)),
                  (EventLoop, Invalidate),
                  (EventLoop, SetStatus status_ready),
                  (EventLoop, FocusWidget InputArea)]))"
proof -
  from handle_send_trace [OF assms(1), of w tk] obtain r where
    r: "fst (call_chat w (strip (input_area s)) (chat_model w)
                 (handle_send_begin tk (strip (input_area s)) s)) = Inr r" and
    t: "trace (snd (handle_send tk w s)) =
             trace s @
             [(running_on s, SetInputText []),
              (running_on s, InsertText (you_line (strip (input_area s)))),
              (running_on s, CursorDown (10 ^ 6)),
              (running_on s, Invalidate),
              (running_on s, SetStatus status_thinking)] @
             (if client_ready w
              then [(Worker, AppendChat (user_message (strip (input_area s)) s)),
                    (Worker, CreateCompletion (chat_model w)
                       (chatContent s @ [user_message (strip (input_area s)) s]))]
              else []) @
             (case r of
                None \<Rightarrow> []
              | Some t \<Rightarrow>
                 [(running_on s, InsertText
                     (separator @ console_print_markdown tk 100 (lit ''monokai'') t @ [10] @
                      separator)),
                  (running_on s, CursorDown (10 ^ 6)),
                  (running_on s, Invalidate),
                  (running_on s, SetStatus status_ready),
                  (running_on s, FocusWidget InputArea)])"
    by blast
  show ?thesis
  proof (intro conjI exI [of _ r])
    show "fst (call_chat w (strip (input_area s)) (chat_model w)
                 (handle_send_begin tk (strip (input_area s)) s)) = Inr r"
      by (rule r)
  qed (simp_all add: t [unfolded assms(2)] user_message_def)
qed

theorem transcript_append_runs_in_worker_witness:
  "strip (input_area state_hello) \<noteq> [] \<and> running_on state_hello = EventLoop \<and>
   (Worker, AppendChat \<lparr>role = lit ''user'', content = lit ''Hello'', promptID = 1\<rparr>)
     \<in> set (trace (snd (handle_send example_toolkit world_down state_hello))) \<and>
   (EventLoop, AppendChat \<lparr>role = lit ''user'', content = lit ''Hello'', promptID = 1\<rparr>)
     \<notin> set (trace (snd (handle_send example_toolkit world_down state_hello)))"
proof -
  have ne: "strip (input_area state_hello) \<noteq> []"
    by (simp add: state_hello_fields strip_hello lit_hello_ne)
  have ev: "running_on state_hello = EventLoop"
    by (simp add: state_hello_fields)
  from transcript_append_runs_in_worker [OF ne ev, of example_toolkit world_down]
  show ?thesis
    using ne ev
    by (auto simp: ready_ok state_hello_fields strip_hello call_chat_down split: option.splits)
qed

section \<open>Sequence ids when sends overlap (C5)\<close>

text \<open>
  C5, as the specification states it: the ids assigned in append order are strictly
  increasing and never repeat across the life of the process. Counterexample: two sends
  of \<open>Hello\<close> whose calls both build their dict, reading the length 0, before either
  appends; the transcript ends with the ids 1 and 1.
\<close>

theorem ids_repeat_counterexample:
  "map promptID (chatContent (fst (run example_toolkit overlapping_sends (initial [], [])))) =
     [1, 1]"
  by (simp add: eval_run)

text \<open>
  C5, amended: the id of a message is \<open>len(chatContent) + 1\<close> as read when
  \<open>call_chat\<close> builds the dict, and the dict is appended at the end; no run of the
  program, with sends overlapping in any way, removes or reorders entries (the old
  transcript is a prefix of the new one). In every run from the initial state in which
  at most one call at a time is between building its dict and appending it, the ids
  are 1, 2, ..., strictly increasing in append order and without repetition.
\<close>

theorem sequence_ids_one_at_a_time:
  "send_step tk w (ClientReady prompt model) s =
     (Built model \<lparr>role = lit ''user'', content = prompt,
                   promptID = int (length (chatContent s)) + 1\<rparr>, s) \<and>
   chatContent (snd (send_step tk w (Built model m) s)) = chatContent s @ [m] \<and>
   (chatContent (snd (handle_send tk w s)) = chatContent s \<or>
    chatContent (snd (handle_send tk w s)) =
      chatContent s @ [\<lparr>role = lit ''user'', content = strip (input_area s),
                         promptID = int (length (chatContent s)) + 1\<rparr>]) \<and>
   prefix (chatContent (fst p)) (chatContent (fst (run tk actions p))) \<and>
   (one_at_a_time tk actions (initial b, []) \<longrightarrow>
      map promptID (chatContent (fst (run tk actions (initial b, [])))) =
        map int [1..<Suc (length (chatContent (fst (run tk actions (initial b, [])))))] \<and>
      sorted_wrt (<) (map promptID (chatContent (fst (run tk actions (initial b, []))))) \<and>
      distinct (map promptID (chatContent (fst (run tk actions (initial b, []))))))"
proof (intro conjI impI)
  show "send_step tk w (ClientReady prompt model) s =
     (Built model \<lparr>role = lit ''user'', content = prompt,
                   promptID = int (length (chatContent s)) + 1\<rparr>, s)"
    by (rule send_step_ClientReady)
  show "chatContent (snd (send_step tk w (Built model m) s)) = chatContent s @ [m]"
    unfolding send_step_chatContent by simp
  show "chatContent (snd (handle_send tk w s)) = chatContent s \<or>
    chatContent (snd (handle_send tk w s)) =
      chatContent s @ [\<lparr>role = lit ''user'', content = strip (input_area s),
                         promptID = int (length (chatContent s)) + 1\<rparr>]"
    using handle_send_chatContent_cases [of tk w s] by (simp add: user_message_def)
  show "prefix (chatContent (fst p)) (chatContent (fst (run tk actions p)))"
    by (rule run_prefix)
next
  assume "one_at_a_time tk actions (initial b, [])"
  with ids_inv_initial have "ids_inv (run tk actions (initial b, []))"
    by (rule run_ids_inv)
  then have ok: "ids_ok (chatContent (fst (run tk actions (initial b, []))))"
    by (simp add: ids_inv_def)
  from ok show "map promptID (chatContent (fst (run tk actions (initial b, [])))) =
        map int [1..<Suc (length (chatContent (fst (run tk actions (initial b, [])))))]"
    by (simp add: ids_ok_def)
  from ok show "sorted_wrt (<) (map promptID (chatContent (fst (run tk actions (initial b, [])))))"
    by (rule ids_ok_increasing)
  from ok show "distinct (map promptID (chatContent (fst (run tk actions (initial b, [])))))"
    by (rule ids_ok_distinct)
qed

theorem sequence_ids_one_at_a_time_witness:
  "one_at_a_time example_toolkit staggered_sends (initial [], []) \<and>
   map promptID (chatContent (fst (run example_toolkit staggered_sends (initial [], [])))) =
     [1, 2]"
proof -
  have one: "one_at_a_time example_toolkit staggered_sends (initial [], [])"
    by (simp add: eval_run)
  define cc where "cc = chatContent (fst (run example_toolkit staggered_sends (initial [], [])))"
  have len: "length cc = 2"
    unfolding cc_def by (simp add: eval_run)
  have "map promptID cc = map int [1..<Suc (length cc)]"
    unfolding cc_def
    using one sequence_ids_one_at_a_time [of example_toolkit world_ok "[]" "[]" "initial []"
        _ "(initial [], [])" staggered_sends "[]"]
    by blast
  then have "map promptID cc = [1, 2]"
    unfolding len by (simp add: upt_rec)
  with one show ?thesis
    unfolding cc_def by simp
qed

section \<open>The orchestrator and the client (C3, C4, C6)\<close>

text \<open>
  C3 says that once the completion call has resolved, \<open>handle_send\<close> always
  reaches the rendering, sets the status to Ready and focuses the input area. The code
  at an input where it does not: the prompt \<open>Hello\<close>, sent while the response pane has
  the focus, and a response whose first choice has the content \<open>None\<close>. \<open>call_chat\<close>
  returns \<open>None\<close>, \<open>md_to_ansi\<close> raises, and the coroutine ends with that exception:
  nothing is rendered after the echoed prompt, the status is still Thinking, and the
  focus has not moved.
\<close>

theorem handle_send_none_content_stays_thinking:
  "strip (input_area state_hello_clicked) \<noteq> [] \<and>
   fst (call_chat world_none (lit ''Hello'') (lit ''gpt-4o-mini'')
          (handle_send_begin example_toolkit (lit ''Hello'') state_hello_clicked)) = Inr None \<and>
   fst (handle_send example_toolkit world_none state_hello_clicked) =
     Some (Exception (lit ''Input data should be a string'')) \<and>
   status (snd (handle_send example_toolkit world_none state_hello_clicked)) = status_thinking \<and>
   status_thinking \<noteq> status_ready \<and>
   focus (snd (handle_send example_toolkit world_none state_hello_clicked)) = OutputArea \<and>
   output_area (snd (handle_send example_toolkit world_none state_hello_clicked)) =
     you_line (lit ''Hello'') \<and>
   trace (snd (handle_send example_toolkit world_none state_hello_clicked)) =
     [(EventLoop, SetInputText []),
      (EventLoop, InsertText (you_line (lit ''Hello''))),
      (EventLoop, CursorDown (10 ^ 6)),
      (EventLoop, Invalidate),
      (EventLoop, SetStatus status_thinking),
      (Worker, AppendChat \<lparr>role = lit ''user'', content = lit ''Hello'', promptID = 1\<rparr>),
      (Worker, CreateCompletion (lit ''gpt-4o-mini'')
         [\<lparr>role = lit ''user'', content = lit ''Hello'', promptID = 1\<rparr>])]"
proof -
  have ne: "strip (input_area state_hello_clicked) \<noteq> []"
    by (simp add: state_hello_clicked_fields strip_hello lit_hello_ne)
  from handle_send_trace [OF ne, of world_none example_toolkit]
  show ?thesis
    using ne
    by (simp add: call_chat_none state_hello_clicked_fields strip_hello ready_ok
          chat_model_examples example_toolkit_fields user_message_def status_thinking_not_ready)
qed

text \<open>
  C4: \<open>call_chat\<close> never raises: it always returns. When its \<open>try\<close> block raises
  an exception with message \<open>err\<close>, at the import, at the construction of the client,
  in the request, or when the response has no choice to index, it returns the text
  \<open>OpenAI error: \<close> followed by \<open>err\<close>; otherwise it returns the content of the first
  choice.
\<close>

theorem call_chat_never_raises:
  "(\<exists>returned. fst (call_chat w prompt model s) = Inr returned) \<and>
   (\<forall>err. fst (call_chat_try w prompt model s) = Inl (Exception err) \<longrightarrow>
      fst (call_chat w prompt model s) = Inr (Some (lit ''OpenAI error: '' @ err))) \<and>
   (\<forall>reply. fst (call_chat_try w prompt model s) = Inr reply \<longrightarrow>
      fst (call_chat w prompt model s) = Inr reply) \<and>
   (\<forall>err. import_openai w = Some (Exception err) \<longrightarrow>
      fst (call_chat w prompt model s) = Inr (Some (lit ''OpenAI error: '' @ err))) \<and>
   (\<forall>err. import_openai w = None \<and>
      OpenAI w (environ w (lit ''OPENAI_API_KEY'')) = Some (Exception err) \<longrightarrow>
      fst (call_chat w prompt model s) = Inr (Some (lit ''OpenAI error: '' @ err))) \<and>
   (\<forall>err. client_ready w \<and>
      completions_create w model (chatContent s @ [user_message prompt s]) = Inl (Exception err) \<longrightarrow>
      fst (call_chat w prompt model s) = Inr (Some (lit ''OpenAI error: '' @ err))) \<and>
   (client_ready w \<and>
      completions_create w model (chatContent s @ [user_message prompt s]) = Inr [] \<longrightarrow>
      fst (call_chat w prompt model s) =
        Inr (Some (lit ''OpenAI error: '' @ lit ''list index out of range'')))"
proof -
  have a: "\<exists>returned. fst (call_chat w prompt model s) = Inr returned"
    by (rule call_chat_returns)
  have b: "fst (call_chat_try w prompt model s) = Inl (Exception err) \<Longrightarrow>
      fst (call_chat w prompt model s) = Inr (Some (lit ''OpenAI error: '' @ err))" for err
    by (cases "call_chat_try w prompt model s") (simp add: call_chat_def)
  have c: "fst (call_chat_try w prompt model s) = Inr reply \<Longrightarrow>
      fst (call_chat w prompt model s) = Inr reply" for reply
    by (cases "call_chat_try w prompt model s") (simp add: call_chat_def)
  have d: "import_openai w = Some (Exception err) \<Longrightarrow>
      fst (call_chat w prompt model s) = Inr (Some (lit ''OpenAI error: '' @ err))" for err
    by (simp add: call_chat_def call_chat_try_def)
  have e: "import_openai w = None \<and>
      OpenAI w (environ w (lit ''OPENAI_API_KEY'')) = Some (Exception err) \<Longrightarrow>
      fst (call_chat w prompt model s) = Inr (Some (lit ''OpenAI error: '' @ err))" for err
    by (simp add: call_chat_def call_chat_try_def)
  have f: "client_ready w \<and>
      completions_create w model (chatContent s @ [user_message prompt s]) = Inl (Exception err) \<Longrightarrow>
      fst (call_chat w prompt model s) = Inr (Some (lit ''OpenAI error: '' @ err))" for err
    by (simp add: call_chat_def call_chat_try_def client_ready_def user_message_def Let_def)
  have g: "client_ready w \<and>
      completions_create w model (chatContent s @ [user_message prompt s]) = Inr [] \<Longrightarrow>
      fst (call_chat w prompt model s) =
        Inr (Some (lit ''OpenAI error: '' @ lit ''list index out of range''))"
    by (simp add: call_chat_def call_chat_try_def client_ready_def user_message_def Let_def
          py_index_def)
  from a b c d e f g show ?thesis
    by blast
qed

theorem call_chat_never_raises_witness:
  "call_chat_try world_down (lit ''Hello'') (lit ''gpt-4o-mini'') state_hello =
     (Inl (Exception (lit ''Connection error.'')),
      state_hello\<lparr>chatContent := [\<lparr>role = lit ''user'', content = lit ''Hello'', promptID = 1\<rparr>],
                   trace := [(EventLoop, AppendChat \<lparr>role = lit ''user'', content = lit ''Hello'', promptID = 1\<rparr>),
                             (EventLoop, CreateCompletion (lit ''gpt-4o-mini'')
                                [\<lparr>role = lit ''user'', content = lit ''Hello'', promptID = 1\<rparr>])]\<rparr>) \<and>
   fst (call_chat world_down (lit ''Hello'') (lit ''gpt-4o-mini'') state_hello) =
     Inr (Some (lit ''OpenAI error: Connection error.''))"
proof -
  have t: "call_chat_try world_down (lit ''Hello'') (lit ''gpt-4o-mini'') state_hello =
     (Inl (Exception (lit ''Connection error.'')),
      state_hello\<lparr>chatContent := [\<lparr>role = lit ''user'', content = lit ''Hello'', promptID = 1\<rparr>],
                   trace := [(EventLoop, AppendChat \<lparr>role = lit ''user'', content = lit ''Hello'', promptID = 1\<rparr>),
                             (EventLoop, CreateCompletion (lit ''gpt-4o-mini'')
                                [\<lparr>role = lit ''user'', content = lit ''Hello'', promptID = 1\<rparr>])]\<rparr>)"
    by (simp add: call_chat_try_def world_down_def Let_def emit_def state_hello_def initial_def)
  have l: "lit ''OpenAI error: '' @ lit ''Connection error.'' = lit ''OpenAI error: Connection error.''"
    by (simp add: lit_def)
  from t have "fst (call_chat_try world_down (lit ''Hello'') (lit ''gpt-4o-mini'') state_hello) =
     Inl (Exception (lit ''Connection error.''))"
    by simp
  with call_chat_never_raises [of world_down "lit ''Hello''" "lit ''gpt-4o-mini''" state_hello]
  have "fst (call_chat world_down (lit ''Hello'') (lit ''gpt-4o-mini'') state_hello) =
     Inr (Some (lit ''OpenAI error: '' @ lit ''Connection error.''))"
    by blast
  with t l show ?thesis
    by simp
qed

text \<open>
  C6: when the input is empty or consists only of whitespace characters (the inputs
  that \<open>strip\<close> makes empty), \<open>handle_send\<close> changes nothing: the transcript, the
  output area, the input area and the status are as before, and so is the rest of the
  state.
\<close>

theorem blank_input_is_ignored:
  assumes "\<forall>c\<in>set (input_area s). py_isspace c"
  shows "handle_send tk w s = (None, s) \<and>
         chatContent (snd (handle_send tk w s)) = chatContent s \<and>
         output_area (snd (handle_send tk w s)) = output_area s \<and>
         input_area (snd (handle_send tk w s)) = input_area s \<and>
         status (snd (handle_send tk w s)) = status s"
proof -
  from assms have "strip (input_area s) = []"
    by (simp add: strip_eq_Nil_iff)
  then show ?thesis
    by (simp add: handle_send_empty)
qed

theorem blank_input_is_ignored_witness:
  "input_area state_blank = lit ''   '' \<and>
   handle_send example_toolkit world_ok state_blank = (None, state_blank) \<and>
   input_area (snd (handle_send example_toolkit world_ok state_blank)) = lit ''   ''"
proof -
  have e: "\<forall>c\<in>set (input_area state_blank). py_isspace c"
    by (simp add: state_blank_def lit_def py_isspace_def)
  from blank_input_is_ignored [OF e, of example_toolkit world_ok]
  show ?thesis
    by (simp add: state_blank_def)
qed

section \<open>The lexer (C10)\<close>



end
